theory Spec2Isabelle
  imports Main "HOL-Library.Word"
begin

section \<open>JavaScript values seen by the response helpers\<close>

text \<open>
  A JavaScript string is a sequence of UTF-16 code units, a Buffer a sequence of bytes.
  \<open>str\<close> embeds an ASCII literal of the source.
\<close>

type_synonym js_string = "16 word list"
type_synonym bytes = "8 word list"

definition str :: "string \<Rightarrow> js_string" where
  "str s = map (\<lambda>c. of_nat (of_char c)) s"

text \<open>
  An object is known to the code through two observations only: whether its \<open>pipe\<close>
  property is a function (a readable stream), and what \<open>JSON.stringify\<close> makes of it
  (a function of the platform, below). \<open>ident\<close> tells objects apart.
\<close>

record js_object =
  pipe_is_function :: bool
  ident :: nat

text \<open>
  The body values of the data model. A number is carried as the text \<open>String(n)\<close>
  yields for it, the only thing the code asks of a number; number formatting itself is
  not modelled.
\<close>

datatype js_value =
    VNull
  | VUndefined
  | VString js_string
  | VBuffer bytes
  | VNumber js_string
  | VBoolean bool
  | VObject js_object

text \<open>What the classifier and \<open>prepare\<close> hand on as content.\<close>

datatype chunk = CNull | CUndefined | CString js_string | CBuffer bytes

text \<open>An \<open>Error\<close> instance: its \<open>code\<close> (absent on plain errors) and its \<open>message\<close>.\<close>

datatype js_error = JSError (code: "string option") (message: js_string)

text \<open>
  Library functions of the platform that the code calls and this repository does not
  define: \<open>JSON.stringify\<close> (\<open>None\<close> is \<open>undefined\<close>) and the \<open>etag\<close> package.
\<close>

record platform =
  JSON_stringify :: "js_value \<Rightarrow> js_string option"
  etag_of :: "chunk \<Rightarrow> js_string"

text \<open>JavaScript truthiness of a body value and of content.\<close>

fun truthy :: "js_value \<Rightarrow> bool" where
  "truthy VNull = False"
| "truthy VUndefined = False"
| "truthy (VString s) = (s \<noteq> [])"
| "truthy (VBuffer b) = True"
| "truthy (VNumber t) = (t \<noteq> str ''0'' \<and> t \<noteq> str ''NaN'')"
| "truthy (VBoolean b) = b"
| "truthy (VObject ob) = True"

fun chunk_truthy :: "chunk \<Rightarrow> bool" where
  "chunk_truthy CNull = False"
| "chunk_truthy CUndefined = False"
| "chunk_truthy (CString s) = (s \<noteq> [])"
| "chunk_truthy (CBuffer b) = True"

text \<open>
  \<open>typeof (body.pipe) === 'function'\<close>: only an object has a \<open>pipe\<close> method, and
  \<open>as_stream\<close> is that object.
\<close>

fun as_stream :: "js_value \<Rightarrow> js_object option" where
  "as_stream (VObject ob) = (if pipe_is_function ob then Some ob else None)"
| "as_stream v = None"

text \<open>
  \<open>Buffer.byteLength\<close>: the length of a buffer, the UTF-8 length of a string (a surrogate
  pair is one four-byte character, a lone surrogate is replaced by a three-byte one).
\<close>

definition high_surrogate :: "16 word \<Rightarrow> bool" where
  "high_surrogate c \<longleftrightarrow> 0xD800 \<le> c \<and> c \<le> 0xDBFF"

definition low_surrogate :: "16 word \<Rightarrow> bool" where
  "low_surrogate c \<longleftrightarrow> 0xDC00 \<le> c \<and> c \<le> 0xDFFF"

fun utf8_length :: "js_string \<Rightarrow> nat" where
  "utf8_length [] = 0"
| "utf8_length [c] = (if c < 0x80 then 1 else if c < 0x800 then 2 else 3)"
| "utf8_length (c # d # cs) =
     (if c < 0x80 then 1 + utf8_length (d # cs)
      else if c < 0x800 then 2 + utf8_length (d # cs)
      else if high_surrogate c \<and> low_surrogate d then 4 + utf8_length cs
      else 3 + utf8_length (d # cs))"

fun byteLength :: "chunk \<Rightarrow> nat" where
  "byteLength (CString s) = utf8_length s"
| "byteLength (CBuffer b) = length b"
| "byteLength c = 0"

section \<open>The body classifier (utils.ts)\<close>

text \<open>
  The character class \<open>\s\<close> of a JavaScript regular expression, and the test
  \<open>/^\s*</.test(body)\<close>: anchored at the start, the pattern matches when \<open><\<close> stands
  here, or when one white-space unit is consumed and the rest matches.
\<close>

definition isWhiteSpace :: "16 word \<Rightarrow> bool" where
  "isWhiteSpace c \<longleftrightarrow>
     c \<in> {0x09, 0x0A, 0x0B, 0x0C, 0x0D, 0x20, 0xA0, 0x1680, 0x2028, 0x2029,
          0x202F, 0x205F, 0x3000, 0xFEFF}
     \<or> (0x2000 \<le> c \<and> c \<le> 0x200A)"

fun html_regex_test :: "js_string \<Rightarrow> bool" where
  "html_regex_test [] = False"
| "html_regex_test (c # cs) = (c = 0x3C \<or> (isWhiteSpace c \<and> html_regex_test cs))"

record content_and_type =
  body :: chunk
  type :: "js_string option"

fun returnContentAndType :: "platform \<Rightarrow> js_value \<Rightarrow> content_and_type" where
  "returnContentAndType P (VString s) =
     \<lparr>body = CString s,
      type = Some (if html_regex_test s then str ''text/html'' else str ''text/plain'')\<rparr>"
| "returnContentAndType P (VBuffer b) =
     \<lparr>body = CBuffer b, type = Some (str ''application/octet-stream'')\<rparr>"
| "returnContentAndType P (VNumber t) =
     \<lparr>body = CString t, type = Some (str ''text/plain'')\<rparr>"
| "returnContentAndType P (VBoolean b) =
     \<lparr>body = CString (str (if b then ''true'' else ''false'')), type = Some (str ''text/plain'')\<rparr>"
| "returnContentAndType P VUndefined = \<lparr>body = CUndefined, type = None\<rparr>"
| "returnContentAndType P v =
     \<lparr>body = (case JSON_stringify P v of None \<Rightarrow> CUndefined | Some j \<Rightarrow> CString j),
      type = Some (str ''application/json'')\<rparr>"

text \<open>
  The last equation is the branch \<open>typeof (body) === 'object'\<close>: objects, and \<open>null\<close>
  when the classifier is called with it directly.

  The words of the specification for the string case: the string begins with \<open><\<close> after
  optional leading white space.
\<close>

definition begins_with_lt_after_whitespace :: "js_string \<Rightarrow> bool" where
  "begins_with_lt_after_whitespace s =
     (case dropWhile isWhiteSpace s of [] \<Rightarrow> False | c # cs \<Rightarrow> c = 0x3C)"

section \<open>The response object and the header helpers (Response.ts)\<close>

text \<open>
  A header value is a string, a number or an array of strings. The platform keeps the
  header map under lower-cased names, so that look-up ignores case. \<open>payload\<close> lists what
  was handed to \<open>write\<close> and \<open>end\<close>; \<open>ended\<close> is set by \<open>end\<close>. The platform's own
  errors (a header set after the head was sent, a second \<open>end\<close>) are not modelled.
\<close>

datatype header_value = HString js_string | HNumber int | HArray "js_string list"

record response =
  statusCode :: int
  headers :: "string \<rightharpoonup> header_value"
  payload :: "chunk list"
  ended :: bool

text \<open>Of the request the code reads \<open>req.method\<close> only.\<close>

record request =
  req_method :: string

definition lowerChar :: "char \<Rightarrow> char" where
  "lowerChar c =
     (if (65::nat) \<le> of_char c \<and> of_char c \<le> (90::nat)
      then Char (digit0 c) (digit1 c) (digit2 c) (digit3 c) (digit4 c) True (digit6 c) (digit7 c)
      else c)"

definition toLowerCase :: "string \<Rightarrow> string" where
  "toLowerCase s = map lowerChar s"

text \<open>The operand of \<open>!\<close> in \<open>!res.getHeader(key)\<close>: absent, the empty string and zero are falsy.\<close>

fun falsy :: "header_value option \<Rightarrow> bool" where
  "falsy None = True"
| "falsy (Some (HString s)) = (s = [])"
| "falsy (Some (HNumber n)) = (n = 0)"
| "falsy (Some (HArray xs)) = False"

definition getHeader :: "response \<Rightarrow> string \<Rightarrow> header_value option" where
  "getHeader res key = headers res (toLowerCase key)"

text \<open>\<open>value.map(String)\<close> leaves an array of strings as it is.\<close>

definition header :: "response \<Rightarrow> string \<Rightarrow> header_value \<Rightarrow> response" where
  "header res key v = res\<lparr>headers := (headers res)(toLowerCase key \<mapsto> v)\<rparr>"

definition status :: "response \<Rightarrow> int \<Rightarrow> response" where
  "status res c = res\<lparr>statusCode := c\<rparr>"

definition safeHeader :: "response \<Rightarrow> string \<Rightarrow> header_value \<Rightarrow> response" where
  "safeHeader res key v = (if falsy (getHeader res key) then header res key v else res)"

definition removeHeader :: "response \<Rightarrow> string \<Rightarrow> response" where
  "removeHeader res key = res\<lparr>headers := (headers res)(toLowerCase key := None)\<rparr>"

definition write_res :: "response \<Rightarrow> chunk \<Rightarrow> response" where
  "write_res res c = res\<lparr>payload := payload res @ [c]\<rparr>"

text \<open>\<open>Response.end\<close>, with the optional payload.\<close>

definition end_res :: "response \<Rightarrow> chunk option \<Rightarrow> response" where
  "end_res res p =
     (case p of None \<Rightarrow> res\<lparr>ended := True\<rparr>
      | Some c \<Rightarrow> res\<lparr>payload := payload res @ [c], ended := True\<rparr>)"

definition etag :: "platform \<Rightarrow> response \<Rightarrow> chunk \<Rightarrow> response" where
  "etag P res c = header res ''ETag'' (HString (etag_of P c))"

section \<open>Preparing and sending a body\<close>

text \<open>
  Modelled from the spec: the status table \<open>methods\<close> is not among the sources; the two
  entries the code reads are the "no content" status 204 and the "not modified" status
  304, as the comment in \<open>prepare\<close> and the specification say.
\<close>

definition noContent :: int where
  "noContent = 204"

definition notModified :: int where
  "notModified = 304"

text \<open>
  \<open>prepare\<close> returns the content and leaves its effect on the response; the model returns
  both. \<open>res.getHeaders()\<close> is the header map under lower-cased names, read once before
  either header is set (\<open>ServerResponse\<close> always has the method).
\<close>

definition prepare :: "platform \<Rightarrow> response \<Rightarrow> js_value \<Rightarrow> response \<times> chunk" where
  "prepare P res b =
     (if b = VNull \<or> b = VUndefined then
        (removeHeader (removeHeader (removeHeader (status res noContent)
           ''Content-Type'') ''Content-Length'') ''Transfer-Encoding'', CNull)
      else
        let ct = returnContentAndType P b; chunk = body ct; ty = type ct in
        if statusCode res = noContent \<or> statusCode res = notModified then
          (removeHeader (removeHeader (removeHeader res
             ''Content-Type'') ''Content-Length'') ''Transfer-Encoding'', chunk)
        else
          let hs = headers res;
              res1 = (case ty of
                        Some t \<Rightarrow>
                          if t \<noteq> [] \<and> falsy (hs ''content-type'')
                          then header res ''Content-Type'' (HString (t @ str ''; charset=utf-8''))
                          else res
                      | None \<Rightarrow> res);
              res2 = (if chunk_truthy chunk \<and> falsy (hs ''content-length'')
                      then header res1 ''Content-Length'' (HNumber (int (byteLength chunk)))
                      else res1)
          in (res2, chunk))"

text \<open>
  \<open>prepareJsonp\<close>. \<open>JSON.stringify\<close> may return \<open>undefined\<close>, and \<open>.replace\<close> on it
  throws a \<open>TypeError\<close>, after the two headers were set. The backslash is the code unit
  \<open>0x5C\<close>, the apostrophe \<open>0x27\<close>.
\<close>

datatype thrown = TypeError

definition replace_all :: "16 word \<Rightarrow> js_string \<Rightarrow> js_string \<Rightarrow> js_string" where
  "replace_all u r s = concat (map (\<lambda>c. if c = u then r else [c]) s)"

definition prepareJsonp ::
    "platform \<Rightarrow> response \<Rightarrow> js_value \<Rightarrow> js_string \<Rightarrow> response \<times> (thrown + js_string)" where
  "prepareJsonp P res b callbackFn =
     (let res1 = header res ''X-Content-Type-Options'' (HString (str ''nosniff''));
          res2 = safeHeader res1 ''Content-Type'' (HString (str ''text/javascript; charset=utf-8''))
      in case JSON_stringify P b of
           None \<Rightarrow> (res2, Inl TypeError)
         | Some j \<Rightarrow>
             let parsedBody =
                   replace_all 0x2029 (0x5C # str ''u2029'')
                     (replace_all 0x2028 (0x5C # str ''u2028'') j)
             in (res2, Inr (str ''/**/ typeof '' @ callbackFn @ str '' === '' @ [0x27]
                            @ str ''function'' @ [0x27] @ str '' && '' @ callbackFn
                            @ str ''('' @ parsedBody @ str '');'')))"

section \<open>The stream piper\<close>

text \<open>
  One invocation of \<open>Response.stream\<close>: the response it pipes to, whether the handlers are
  registered and \<open>body.pipe(res)\<close> was called (\<open>piped\<close>), the local \<open>finished\<close> flag,
  whether the \<open>on-finished\<close> listener is still to be called (the package calls a listener
  once), the number of calls of \<open>destroy(body)\<close>, and the promise. A promise keeps its
  first settlement: \<open>resolve\<close> and \<open>reject\<close> on a settled promise do nothing.
\<close>

datatype promise = Pending | Resolved | Rejected js_error

record piping =
  target :: response
  piped :: bool
  finished :: bool
  listener_pending :: bool
  destroyed :: nat
  promise :: promise

datatype event = StreamData bytes | StreamError js_error | StreamEnd | ResFinished

definition resolve :: "piping \<Rightarrow> piping" where
  "resolve p = (if promise p = Pending then p\<lparr>promise := Resolved\<rparr> else p)"

definition reject :: "js_error \<Rightarrow> piping \<Rightarrow> piping" where
  "reject e p = (if promise p = Pending then p\<lparr>promise := Rejected e\<rparr> else p)"

definition destroy :: "piping \<Rightarrow> piping" where
  "destroy p = p\<lparr>destroyed := Suc (destroyed p)\<rparr>"

definition invalid_stream :: js_error where
  "invalid_stream = JSError None (str ''Body is not a valid stream'')"

definition stream :: "response \<Rightarrow> js_object \<Rightarrow> piping" where
  "stream res b =
     (if \<not> pipe_is_function b then
        \<lparr>target = res, piped = False, finished = False, listener_pending = False,
         destroyed = 0, promise = Rejected invalid_stream\<rparr>
      else
        \<lparr>target = res, piped = True, finished = False, listener_pending = True,
         destroyed = 0, promise = Pending\<rparr>)"

text \<open>The three handlers, as registered.\<close>

definition on_error :: "js_error \<Rightarrow> piping \<Rightarrow> piping" where
  "on_error e p = (if finished p then p else reject e (destroy (p\<lparr>finished := True\<rparr>)))"

definition on_end :: "piping \<Rightarrow> piping" where
  "on_end p = resolve p"

definition on_res_finished :: "piping \<Rightarrow> piping" where
  "on_res_finished p = destroy (p\<lparr>finished := True\<rparr>)"

text \<open>
  What \<open>body.pipe(res)\<close> does, by the platform's \<open>Readable.pipe\<close>: the data the stream
  emits is written to the response, and the response is ended when the stream ends. A
  destroyed stream delivers nothing more.
\<close>

definition pipe_data :: "bytes \<Rightarrow> piping \<Rightarrow> piping" where
  "pipe_data d p =
     (if destroyed p = 0 then p\<lparr>target := write_res (target p) (CBuffer d)\<rparr> else p)"

definition pipe_end :: "piping \<Rightarrow> piping" where
  "pipe_end p = (if destroyed p = 0 then p\<lparr>target := end_res (target p) None\<rparr> else p)"

text \<open>
  An event reaches its handlers when they were registered; on \<open>end\<close> the handler of
  \<open>stream\<close> comes first, it was registered before \<open>pipe\<close> was called.
\<close>

fun fire :: "piping \<Rightarrow> event \<Rightarrow> piping" where
  "fire p (StreamData d) = (if piped p then pipe_data d p else p)"
| "fire p (StreamError e) = (if piped p then on_error e p else p)"
| "fire p StreamEnd = (if piped p then pipe_end (on_end p) else p)"
| "fire p ResFinished =
     (if piped p \<and> listener_pending p then on_res_finished (p\<lparr>listener_pending := False\<rparr>) else p)"

definition run :: "piping \<Rightarrow> event list \<Rightarrow> piping" where
  "run p evs = foldl fire p evs"

section \<open>The sender\<close>

text \<open>
  \<open>send\<close> either ends the response at once or leaves a stream piping into it, with the
  \<open>catch\<close> handler on the promise.
\<close>

datatype outcome = Sent response | Streaming piping

definition send :: "platform \<Rightarrow> request \<Rightarrow> response \<Rightarrow> js_value \<Rightarrow> bool \<Rightarrow> outcome" where
  "send P req res b generateEtag =
     (case (if truthy b then as_stream b else None) of
        Some ob \<Rightarrow> Streaming (stream res ob)
      | None \<Rightarrow>
          (let (res1, chunk) = prepare P res b in
           if chunk = CNull \<or> chunk = CUndefined \<or> req_method req = ''HEAD''
           then Sent (end_res res1 None)
           else Sent (end_res (if generateEtag then etag P res1 chunk else res1) (Some chunk))))"

definition response_of :: "outcome \<Rightarrow> response" where
  "response_of out = (case out of Sent r \<Rightarrow> r | Streaming p \<Rightarrow> target p)"

text \<open>The \<open>catch\<close> handler of \<open>send\<close>, and an event of a stream that \<open>send\<close> started.\<close>

definition send_catch :: "platform \<Rightarrow> request \<Rightarrow> response \<Rightarrow> js_error \<Rightarrow> bool \<Rightarrow> response" where
  "send_catch P req res e generateEtag =
     response_of (send P req (status res (if code e = Some ''ENOENT'' then 404 else 500))
                    (VString (message e)) generateEtag)"

definition send_fire :: "platform \<Rightarrow> request \<Rightarrow> bool \<Rightarrow> piping \<Rightarrow> event \<Rightarrow> piping" where
  "send_fire P req generateEtag p ev =
     (let p' = fire p ev in
      case promise p' of
        Rejected e \<Rightarrow>
          if promise p = Pending
          then p'\<lparr>target := send_catch P req (target p') e generateEtag\<rparr>
          else p'
      | _ \<Rightarrow> p')"

section \<open>The specification's words, and concrete values\<close>

text \<open>
  Escaping the line separator U+2028 and the paragraph separator U+2029 of a JSON text in
  one pass, as the specification describes the JSONP body.
\<close>

definition escape_separators :: "js_string \<Rightarrow> js_string" where
  "escape_separators j =
     concat (map (\<lambda>c. if c = 0x2028 then 0x5C # str ''u2028''
                        else if c = 0x2029 then 0x5C # str ''u2029'' else [c]) j)"

text \<open>
  A platform, a fresh response (status 200, no header), two requests, a readable stream,
  an object that is no stream, and the error of opening a missing file (the platform
  appends the path to the message).
\<close>

definition demo_platform :: platform where
  "demo_platform = \<lparr>JSON_stringify = (\<lambda>v. Some (str ''{}'')), etag_of = (\<lambda>c. str ''tag'')\<rparr>"

definition fresh_response :: response where
  "fresh_response = \<lparr>statusCode = 200, headers = Map.empty, payload = [], ended = False\<rparr>"

definition get_request :: request where
  "get_request = \<lparr>req_method = ''GET''\<rparr>"

definition head_request :: request where
  "head_request = \<lparr>req_method = ''HEAD''\<rparr>"

definition readable :: js_object where
  "readable = \<lparr>pipe_is_function = True, ident = 0\<rparr>"

definition not_a_stream :: js_object where
  "not_a_stream = \<lparr>pipe_is_function = False, ident = 1\<rparr>"

definition enoent :: js_error where
  "enoent = JSError (Some ''ENOENT'') (str ''ENOENT: no such file or directory, open foo.txt'')"

section \<open>Facts about the helpers\<close>

lemmas header_ops =
  header_def removeHeader_def status_def getHeader_def toLowerCase_def lowerChar_def

lemmas handler_defs =
  on_error_def on_end_def on_res_finished_def resolve_def reject_def destroy_def
  pipe_data_def pipe_end_def

subsection \<open>The classifier\<close>

lemma lt_not_whitespace: "\<not> isWhiteSpace 0x3C"
  by (simp add: isWhiteSpace_def)

lemma html_regex_test_eq: "html_regex_test s = begins_with_lt_after_whitespace s"
  by (induction s) (auto simp: begins_with_lt_after_whitespace_def lt_not_whitespace)

lemma classifier_never_null: "body (returnContentAndType P b) \<noteq> CNull"
  by (cases b) (simp_all split: option.split)

subsection \<open>\<open>safeHeader\<close> and \<open>prepare\<close>\<close>

lemma safeHeader_keeps_truthy: "\<not> falsy (getHeader res key) \<Longrightarrow> safeHeader res key v = res"
  by (simp add: safeHeader_def)

lemma safeHeader_sets_absent:
  "getHeader res key = None \<Longrightarrow> getHeader (safeHeader res key v) key = Some v"
  by (simp add: safeHeader_def header_def getHeader_def)

lemma prepare_payload: "payload (fst (prepare P res b)) = payload res"
  by (simp add: prepare_def Let_def header_ops split: option.split)

lemma prepare_ended: "ended (fst (prepare P res b)) = ended res"
  by (simp add: prepare_def Let_def header_ops split: option.split)

lemma prepare_statusCode:
  "statusCode (fst (prepare P res b)) = (if b = VNull \<or> b = VUndefined then 204 else statusCode res)"
  by (simp add: prepare_def Let_def header_ops noContent_def split: option.split)

lemma prepare_chunk:
  "snd (prepare P res b) =
     (if b = VNull \<or> b = VUndefined then CNull else body (returnContentAndType P b))"
  by (simp add: prepare_def Let_def)

lemma prepare_other_headers:
  "k \<noteq> ''content-type'' \<Longrightarrow> k \<noteq> ''content-length'' \<Longrightarrow> k \<noteq> ''transfer-encoding'' \<Longrightarrow>
   headers (fst (prepare P res b)) k = headers res k"
  by (simp add: prepare_def Let_def header_ops split: option.split)

lemma prepare_null:
  "b = VNull \<or> b = VUndefined \<Longrightarrow>
   prepare P res b =
     (res\<lparr>statusCode := 204,
          headers := (headers res)(''content-type'' := None, ''content-length'' := None,
                                   ''transfer-encoding'' := None)\<rparr>, CNull)"
  by (auto simp add: prepare_def Let_def header_ops noContent_def)

lemma prepare_stripped:
  "b \<noteq> VNull \<Longrightarrow> b \<noteq> VUndefined \<Longrightarrow> statusCode res = 204 \<or> statusCode res = 304 \<Longrightarrow>
   prepare P res b =
     (res\<lparr>headers := (headers res)(''content-type'' := None, ''content-length'' := None,
                                   ''transfer-encoding'' := None)\<rparr>,
      body (returnContentAndType P b))"
  by (auto simp add: prepare_def Let_def header_ops noContent_def notModified_def)

lemma prepare_content_type:
  "b \<noteq> VNull \<Longrightarrow> b \<noteq> VUndefined \<Longrightarrow> statusCode res \<noteq> 204 \<Longrightarrow> statusCode res \<noteq> 304 \<Longrightarrow>
   headers (fst (prepare P res b)) ''content-type'' =
     (case type (returnContentAndType P b) of
        Some t \<Rightarrow> if t \<noteq> [] \<and> falsy (headers res ''content-type'')
                  then Some (HString (t @ str ''; charset=utf-8''))
                  else headers res ''content-type''
      | None \<Rightarrow> headers res ''content-type'')"
  by (simp add: prepare_def Let_def header_ops noContent_def notModified_def split: option.split)

lemma prepare_content_length:
  "b \<noteq> VNull \<Longrightarrow> b \<noteq> VUndefined \<Longrightarrow> statusCode res \<noteq> 204 \<Longrightarrow> statusCode res \<noteq> 304 \<Longrightarrow>
   headers (fst (prepare P res b)) ''content-length'' =
     (if chunk_truthy (body (returnContentAndType P b)) \<and> falsy (headers res ''content-length'')
      then Some (HNumber (int (byteLength (body (returnContentAndType P b)))))
      else headers res ''content-length'')"
  by (simp add: prepare_def Let_def header_ops noContent_def notModified_def split: option.split)

lemma prepare_transfer_encoding:
  "b \<noteq> VNull \<Longrightarrow> b \<noteq> VUndefined \<Longrightarrow> statusCode res \<noteq> 204 \<Longrightarrow> statusCode res \<noteq> 304 \<Longrightarrow>
   headers (fst (prepare P res b)) ''transfer-encoding'' = headers res ''transfer-encoding''"
  by (simp add: prepare_def Let_def header_ops noContent_def notModified_def split: option.split)

subsection \<open>\<open>prepareJsonp\<close>\<close>

lemma replace_twice:
  "replace_all 0x2029 (0x5C # str ''u2029'') (replace_all 0x2028 (0x5C # str ''u2028'') j)
   = escape_separators j"
  by (induction j) (simp_all add: replace_all_def escape_separators_def str_def)

lemma prepareJsonp_text:
  "JSON_stringify P b = Some j \<Longrightarrow>
   snd (prepareJsonp P res b cb) =
     Inr (str ''/**/ typeof '' @ cb @ str '' === '' @ [0x27] @ str ''function'' @ [0x27]
          @ str '' && '' @ cb @ str ''('' @ escape_separators j @ str '');'')"
  by (simp add: prepareJsonp_def Let_def replace_twice)

lemma prepareJsonp_nosniff:
  "getHeader (fst (prepareJsonp P res b cb)) ''X-Content-Type-Options''
   = Some (HString (str ''nosniff''))"
  by (simp add: prepareJsonp_def Let_def safeHeader_def header_ops split: option.split)

lemma prepareJsonp_content_type:
  "getHeader (fst (prepareJsonp P res b cb)) ''Content-Type'' =
     (if falsy (getHeader res ''Content-Type'')
      then Some (HString (str ''text/javascript; charset=utf-8''))
      else getHeader res ''Content-Type'')"
  by (simp add: prepareJsonp_def Let_def safeHeader_def header_ops split: option.split)

subsection \<open>\<open>send\<close>\<close>

lemma send_not_stream:
  "(truthy b \<longrightarrow> as_stream b = None) \<Longrightarrow>
   send P req res b g =
     (if snd (prepare P res b) = CNull \<or> snd (prepare P res b) = CUndefined \<or> req_method req = ''HEAD''
      then Sent (end_res (fst (prepare P res b)) None)
      else Sent (end_res (if g then etag P (fst (prepare P res b)) (snd (prepare P res b))
                          else fst (prepare P res b)) (Some (snd (prepare P res b)))))"
  by (cases "prepare P res b") (auto simp: send_def)

lemma send_stream:
  "truthy b \<Longrightarrow> as_stream b = Some ob \<Longrightarrow> send P req res b g = Streaming (stream res ob)"
  by (simp add: send_def)

lemma string_not_stream: "truthy (VString s) \<longrightarrow> as_stream (VString s) = None"
  by simp

lemma send_catch_result:
  "send_catch P req res e g =
     (let r = status res (if code e = Some ''ENOENT'' then 404 else 500);
          r1 = fst (prepare P r (VString (message e)));
          chunk = CString (message e)
      in if req_method req = ''HEAD'' then end_res r1 None
         else end_res (if g then etag P r1 chunk else r1) (Some chunk))"
  by (simp add: send_catch_def send_not_stream [OF string_not_stream] prepare_chunk
      response_of_def Let_def)

lemma send_catch_facts:
  "statusCode (send_catch P req res e g) = (if code e = Some ''ENOENT'' then 404 else 500)"
  "payload (send_catch P req res e g) =
     payload res @ (if req_method req = ''HEAD'' then [] else [CString (message e)])"
  "ended (send_catch P req res e g)"
  by (simp_all add: send_catch_result Let_def end_res_def etag_def header_def prepare_payload
      prepare_statusCode status_def)

subsection \<open>The stream piper\<close>

lemma run_Nil: "run p [] = p"
  by (simp add: run_def)

lemma run_Cons: "run p (ev # evs) = run (fire p ev) evs"
  by (simp add: run_def)

lemma run_append: "run p (xs @ ys) = run (run p xs) ys"
  by (simp add: run_def)

lemma stream_piped:
  "pipe_is_function ob \<Longrightarrow>
   piped (stream res ob) \<and> listener_pending (stream res ob) \<and> \<not> finished (stream res ob)
   \<and> destroyed (stream res ob) = 0 \<and> promise (stream res ob) = Pending
   \<and> target (stream res ob) = res"
  by (simp add: stream_def)

lemma fire_piped: "piped (fire p ev) = piped p"
  by (cases ev) (simp_all add: handler_defs)

lemma fire_not_piped: "\<not> piped p \<Longrightarrow> fire p ev = p"
  by (cases ev) simp_all

lemma run_not_piped: "\<not> piped p \<Longrightarrow> run p evs = p"
  by (induction evs) (simp_all add: run_Nil run_Cons fire_not_piped)

lemma fire_settled: "promise p \<noteq> Pending \<Longrightarrow> promise (fire p ev) = promise p"
  by (cases ev) (simp_all add: handler_defs)

lemma run_settled: "promise p \<noteq> Pending \<Longrightarrow> promise (run p evs) = promise p"
  by (induction evs arbitrary: p) (simp_all add: run_Nil run_Cons fire_settled)

lemma fire_res_finished_promise: "promise (fire p ResFinished) = promise p"
  by (simp add: handler_defs)

text \<open>Once the listener of \<open>on-finished\<close> has run, \<open>finished\<close> stays set.\<close>

lemma fire_latch:
  "\<not> listener_pending p \<longrightarrow> finished p \<Longrightarrow>
   \<not> listener_pending (fire p ev) \<longrightarrow> finished (fire p ev)"
  by (cases ev) (simp_all add: handler_defs)

text \<open>
  The number of calls of \<open>destroy\<close> after a run: one for the response completing, if it
  does, and one for a stream error that arrives while \<open>finished\<close> is still unset, that is,
  before the response completes.
\<close>

lemma destroyed_run:
  "piped p \<Longrightarrow> (\<not> listener_pending p \<longrightarrow> finished p) \<Longrightarrow>
   destroyed (run p evs) =
     destroyed p
     + (if listener_pending p \<and> ResFinished \<in> set evs then 1 else 0)
     + (if \<not> finished p \<and> (\<exists>e. StreamError e \<in> set (takeWhile (\<lambda>ev. ev \<noteq> ResFinished) evs))
        then 1 else 0)"
proof (induction evs arbitrary: p)
  case Nil
  then show ?case by (simp add: run_Nil)
next
  case (Cons ev evs)
  have a: "piped (fire p ev)"
    using Cons.prems by (simp add: fire_piped)
  have b: "\<not> listener_pending (fire p ev) \<longrightarrow> finished (fire p ev)"
    using Cons.prems by (intro fire_latch) simp
  show ?case
    unfolding run_Cons Cons.IH [OF a b]
    using Cons.prems
    by (cases ev) (auto simp: handler_defs)
qed

lemma finished_run:
  "piped p \<Longrightarrow> listener_pending p \<or> finished p \<Longrightarrow> ResFinished \<in> set evs \<or> finished p \<Longrightarrow>
   finished (run p evs)"
proof (induction evs arbitrary: p)
  case Nil
  then show ?case by (simp add: run_Nil)
next
  case (Cons ev evs)
  show ?case
    using Cons.prems
    by (cases ev) (auto simp: run_Cons handler_defs intro!: Cons.IH)
qed

lemma resolved_run:
  "promise (run p evs) = Resolved \<Longrightarrow> promise p = Resolved \<or> (piped p \<and> StreamEnd \<in> set evs)"
proof (induction evs arbitrary: p)
  case Nil
  then show ?case by (simp add: run_Nil)
next
  case (Cons ev evs)
  from Cons.IH [of "fire p ev"] Cons.prems
  have "promise (fire p ev) = Resolved \<or> (piped (fire p ev) \<and> StreamEnd \<in> set evs)"
    by (simp add: run_Cons)
  then show ?case
    by (cases ev) (auto simp: handler_defs fire_piped split: if_splits)
qed

lemma rejected_run:
  "promise (run p evs) = Rejected e \<Longrightarrow>
   promise p = Rejected e \<or> (piped p \<and> StreamError e \<in> set evs)"
proof (induction evs arbitrary: p)
  case Nil
  then show ?case by (simp add: run_Nil)
next
  case (Cons ev evs)
  from Cons.IH [of "fire p ev"] Cons.prems
  have "promise (fire p ev) = Rejected e \<or> (piped (fire p ev) \<and> StreamError e \<in> set evs)"
    by (simp add: run_Cons)
  then show ?case
    by (cases ev) (auto simp: handler_defs fire_piped split: if_splits)
qed

lemma end_settles:
  "piped p \<Longrightarrow> StreamEnd \<in> set evs \<Longrightarrow> promise (run p evs) \<noteq> Pending"
proof (induction evs arbitrary: p)
  case Nil
  then show ?case by simp
next
  case (Cons ev evs)
  show ?case
  proof (cases "ev = StreamEnd")
    case True
    then have "promise (fire p ev) \<noteq> Pending"
      using Cons.prems by (simp add: handler_defs)
    then show ?thesis by (simp add: run_Cons run_settled)
  next
    case False
    then show ?thesis
      using Cons.prems by (simp add: run_Cons Cons.IH fire_piped)
  qed
qed

lemma first_error_rejects:
  "piped p \<Longrightarrow> \<not> finished p \<Longrightarrow> promise p = Pending \<Longrightarrow>
   promise (run p (StreamError e # evs)) = Rejected e"
  by (simp add: run_Cons run_settled handler_defs)

lemma send_fire_error:
  "piped p \<Longrightarrow> \<not> finished p \<Longrightarrow> promise p = Pending \<Longrightarrow>
   send_fire P req g p (StreamError e) =
     (fire p (StreamError e))\<lparr>target := send_catch P req (target p) e g\<rparr>
   \<and> promise (fire p (StreamError e)) = Rejected e"
  by (simp add: send_fire_def Let_def handler_defs)

section \<open>Properties of the stream piper: release and settlement\<close>

text \<open>
  C1, as stated: the stream is forcibly released at most once in one invocation, the
  response-completion handler releasing it only if the operation is not yet finished.
  The handler given to \<open>on-finished\<close> does not read the flag: when the stream fails and the
  response then completes (as it does when \<open>send\<close> answers the failure), \<open>destroy\<close> is
  called twice.
\<close>

theorem stream_release_twice:
  "destroyed (run (stream fresh_response readable) [StreamError enoent, ResFinished]) = 2"
  by (simp add: run_def stream_def readable_def handler_defs)

text \<open>
  C1, amended: the error handler alone is guarded by \<open>finished\<close>; the response-completion
  handler sets the flag and releases the stream without reading it. In one invocation
  \<open>destroy\<close> is called once if the response completes, and once more if a stream error
  arrived before that: at most twice. Once the response has completed, \<open>finished\<close> is
  set and the stream has been released: it is never left open.
\<close>

theorem stream_release:
  "pipe_is_function ob \<longrightarrow>
     destroyed (run (stream res ob) evs) =
       (if ResFinished \<in> set evs then 1 else 0)
       + (if \<exists>e. StreamError e \<in> set (takeWhile (\<lambda>ev. ev \<noteq> ResFinished) evs) then 1 else 0)
     \<and> destroyed (run (stream res ob) evs) \<le> 2
     \<and> (ResFinished \<in> set evs \<longrightarrow>
          finished (run (stream res ob) evs) \<and> 1 \<le> destroyed (run (stream res ob) evs))"
proof
  assume ob: "pipe_is_function ob"
  let ?p = "stream res ob"
  have count: "destroyed (run ?p evs) =
       (if ResFinished \<in> set evs then 1 else 0)
       + (if \<exists>e. StreamError e \<in> set (takeWhile (\<lambda>ev. ev \<noteq> ResFinished) evs) then 1 else 0)"
    using destroyed_run [of ?p evs] stream_piped [OF ob, of res] by simp
  have fin: "ResFinished \<in> set evs \<longrightarrow> finished (run ?p evs)"
    using finished_run [of ?p evs] stream_piped [OF ob, of res] by simp
  from count fin show "destroyed (run ?p evs) =
       (if ResFinished \<in> set evs then 1 else 0)
       + (if \<exists>e. StreamError e \<in> set (takeWhile (\<lambda>ev. ev \<noteq> ResFinished) evs) then 1 else 0)
     \<and> destroyed (run ?p evs) \<le> 2
     \<and> (ResFinished \<in> set evs \<longrightarrow> finished (run ?p evs) \<and> 1 \<le> destroyed (run ?p evs))"
    by simp
qed

theorem stream_release_witness:
  "pipe_is_function readable
   \<and> destroyed (run (stream fresh_response readable) [ResFinished, StreamError enoent]) = 1
   \<and> finished (run (stream fresh_response readable) [ResFinished, StreamError enoent])"
  using stream_release [of readable fresh_response "[ResFinished, StreamError enoent]"]
  by (simp add: readable_def)

text \<open>
  C2: the operation settles once. An input that is not pipe-capable is rejected at once
  with the error "Body is not a valid stream"; no handler is registered and the response
  is untouched. For a stream the promise starts pending; it is resolved only if the
  stream emitted \<open>end\<close>, rejected with \<open>e\<close> only if the stream emitted the error \<open>e\<close>; it is
  settled as soon as the stream has emitted \<open>end\<close>, and rejected with the stream's error
  when that error is the first event. Once settled, no later event changes the outcome.
  Response completion never changes the promise.
\<close>

theorem stream_settles:
  "(\<not> pipe_is_function ob \<longrightarrow>
      promise (stream res ob) = Rejected invalid_stream \<and> target (stream res ob) = res
      \<and> run (stream res ob) evs = stream res ob)
   \<and> (pipe_is_function ob \<longrightarrow>
        promise (stream res ob) = Pending
        \<and> (promise (run (stream res ob) evs) = Resolved \<longrightarrow> StreamEnd \<in> set evs)
        \<and> (\<forall>e. promise (run (stream res ob) evs) = Rejected e \<longrightarrow> StreamError e \<in> set evs)
        \<and> (StreamEnd \<in> set evs \<longrightarrow> promise (run (stream res ob) evs) \<noteq> Pending)
        \<and> (\<forall>e. promise (run (stream res ob) (StreamError e # evs)) = Rejected e))
   \<and> (promise (run (stream res ob) evs) \<noteq> Pending \<longrightarrow>
        promise (run (stream res ob) (evs @ evs')) = promise (run (stream res ob) evs))
   \<and> promise (fire (run (stream res ob) evs) ResFinished) = promise (run (stream res ob) evs)"
proof (intro conjI impI allI)
  assume "\<not> pipe_is_function ob"
  then show "promise (stream res ob) = Rejected invalid_stream" "target (stream res ob) = res"
    "run (stream res ob) evs = stream res ob"
    by (simp_all add: stream_def run_not_piped)
next
  assume ob: "pipe_is_function ob"
  show "promise (stream res ob) = Pending"
    using ob by (simp add: stream_def)
  show "StreamEnd \<in> set evs" if "promise (run (stream res ob) evs) = Resolved"
    using resolved_run [OF that] ob by (simp add: stream_def)
  show "StreamError e \<in> set evs" if "promise (run (stream res ob) evs) = Rejected e" for e
    using rejected_run [OF that] ob by (simp add: stream_def)
  show "promise (run (stream res ob) evs) \<noteq> Pending" if "StreamEnd \<in> set evs"
    using end_settles [OF _ that, of "stream res ob"] ob by (simp add: stream_def)
  show "promise (run (stream res ob) (StreamError e # evs)) = Rejected e" for e
    using stream_piped [OF ob, of res] by (intro first_error_rejects) simp_all
next
  assume "promise (run (stream res ob) evs) \<noteq> Pending"
  then show "promise (run (stream res ob) (evs @ evs')) = promise (run (stream res ob) evs)"
    by (simp add: run_append run_settled)
next
  show "promise (fire (run (stream res ob) evs) ResFinished) = promise (run (stream res ob) evs)"
    by (rule fire_res_finished_promise)
qed

theorem stream_settles_witness:
  "pipe_is_function readable \<and> \<not> pipe_is_function not_a_stream
   \<and> promise (stream fresh_response not_a_stream) = Rejected invalid_stream
   \<and> StreamEnd \<in> set [StreamEnd, StreamError enoent]
   \<and> promise (run (stream fresh_response readable) [StreamEnd, StreamError enoent]) = Resolved
   \<and> promise (run (stream fresh_response readable) ([StreamError enoent] @ [ResFinished, StreamEnd]))
       = Rejected enoent"
  using stream_settles [of not_a_stream fresh_response "[]" "[]"]
        stream_settles [of readable fresh_response "[StreamEnd, StreamError enoent]" "[]"]
        stream_settles [of readable fresh_response "[StreamError enoent]" "[ResFinished, StreamEnd]"]
  by (simp add: readable_def not_a_stream_def run_def stream_def handler_defs)

section \<open>Properties of the sender\<close>

text \<open>
  C3, as stated: with a null or absent body the status is 204 unless the caller set another
  one, \<open>send\<close> never overriding the caller's status. \<open>prepare\<close> assigns 204 whatever the
  status was: a caller's 404 is replaced.
\<close>

theorem send_null_overrides_status:
  "statusCode (status fresh_response 404) = 404
   \<and> statusCode (response_of (send demo_platform get_request (status fresh_response 404) VNull True))
       = 204"
  by (simp add: send_def prepare_null end_res_def response_of_def status_def)

text \<open>
  C3, amended: for every null or absent body \<open>send\<close> ends the response with no body, with
  the status set to 204 whatever status the caller had set, and with the Content-Type,
  Content-Length and Transfer-Encoding headers absent; nothing else of the response
  changes. The caller's status is kept for every other body that is not a stream.
\<close>

theorem send_null_body:
  "(b = VNull \<or> b = VUndefined \<longrightarrow>
      send P req res b g =
        Sent (res\<lparr>statusCode := 204,
                  headers := (headers res)(''content-type'' := None, ''content-length'' := None,
                                           ''transfer-encoding'' := None),
                  ended := True\<rparr>))
   \<and> (b \<noteq> VNull \<and> b \<noteq> VUndefined \<and> (truthy b \<longrightarrow> as_stream b = None) \<longrightarrow>
        statusCode (response_of (send P req res b g)) = statusCode res)"
proof (intro conjI impI)
  assume "b = VNull \<or> b = VUndefined"
  then show "send P req res b g =
        Sent (res\<lparr>statusCode := 204,
                  headers := (headers res)(''content-type'' := None, ''content-length'' := None,
                                           ''transfer-encoding'' := None),
                  ended := True\<rparr>)"
    by (auto simp: send_def prepare_null end_res_def)
next
  assume "b \<noteq> VNull \<and> b \<noteq> VUndefined \<and> (truthy b \<longrightarrow> as_stream b = None)"
  then show "statusCode (response_of (send P req res b g)) = statusCode res"
    by (simp add: send_not_stream response_of_def end_res_def etag_def header_def
        prepare_statusCode)
qed

theorem send_null_body_witness:
  "send demo_platform get_request (status fresh_response 404) VNull True =
     Sent \<lparr>statusCode = 204, headers = Map.empty, payload = [], ended = True\<rparr>
   \<and> statusCode (response_of
        (send demo_platform get_request (status fresh_response 404) (VBoolean True) True)) = 404"
  using send_null_body [of VNull demo_platform get_request "status fresh_response 404" True]
        send_null_body [of "VBoolean True" demo_platform get_request "status fresh_response 404" True]
  by (simp add: fresh_response_def status_def)

text \<open>
  C4, as stated: piping a stream for a missing file yields status 404 and a body equal to
  the error code string \<open>ENOENT\<close>. The handler sends \<open>error.message\<close>, which is the longer
  text of the platform, not \<open>error.code\<close>.
\<close>

theorem send_stream_failure_body:
  "code enoent = Some ''ENOENT''
   \<and> payload (target (send_fire demo_platform get_request True (stream fresh_response readable)
        (StreamError enoent))) = [CString (message enoent)]
   \<and> CString (message enoent) \<noteq> CString (str ''ENOENT'')"
  by (simp add: send_fire_error [THEN conjunct1] stream_def readable_def send_catch_facts
      fresh_response_def get_request_def enoent_def str_def)

text \<open>
  C4, amended: \<open>send\<close> with a stream body starts piping; when the stream then fails
  before it has delivered anything, the promise is rejected with the error and the
  handler of \<open>send\<close> sets the status to 404 if the error's code is \<open>ENOENT\<close> and to 500
  otherwise, and sends the error's message: the response is ended, with the message as
  its body (no body for a HEAD request). For a missing file that is status 404 and the
  message of the platform's error.
\<close>

theorem send_stream_failure:
  "pipe_is_function ob \<longrightarrow>
     send P req res (VObject ob) g = Streaming (stream res ob)
     \<and> promise (send_fire P req g (stream res ob) (StreamError e)) = Rejected e
     \<and> statusCode (target (send_fire P req g (stream res ob) (StreamError e)))
         = (if code e = Some ''ENOENT'' then 404 else 500)
     \<and> payload (target (send_fire P req g (stream res ob) (StreamError e)))
         = payload res @ (if req_method req = ''HEAD'' then [] else [CString (message e)])
     \<and> ended (target (send_fire P req g (stream res ob) (StreamError e)))"
proof
  assume ob: "pipe_is_function ob"
  have s: "send P req res (VObject ob) g = Streaming (stream res ob)"
    using ob by (simp add: send_stream)
  note f = send_fire_error [of "stream res ob" P req g e]
  from ob have p: "piped (stream res ob)" "\<not> finished (stream res ob)"
    "promise (stream res ob) = Pending" "target (stream res ob) = res"
    by (simp_all add: stream_def)
  show "send P req res (VObject ob) g = Streaming (stream res ob)
     \<and> promise (send_fire P req g (stream res ob) (StreamError e)) = Rejected e
     \<and> statusCode (target (send_fire P req g (stream res ob) (StreamError e)))
         = (if code e = Some ''ENOENT'' then 404 else 500)
     \<and> payload (target (send_fire P req g (stream res ob) (StreamError e)))
         = payload res @ (if req_method req = ''HEAD'' then [] else [CString (message e)])
     \<and> ended (target (send_fire P req g (stream res ob) (StreamError e)))"
    using s f p by (simp add: send_catch_facts)
qed

theorem send_stream_failure_witness:
  "pipe_is_function readable
   \<and> statusCode (target (send_fire demo_platform get_request True (stream fresh_response readable)
        (StreamError enoent))) = 404
   \<and> statusCode (target (send_fire demo_platform get_request True (stream fresh_response readable)
        (StreamError (JSError None (str ''boom''))))) = 500"
  using send_stream_failure [of readable demo_platform get_request fresh_response True enoent]
        send_stream_failure [of readable demo_platform get_request fresh_response True
          "JSError None (str ''boom'')"]
  by (simp add: readable_def enoent_def)

text \<open>
  C8, as stated: for a HEAD request \<open>send\<close> ends the response with no body whatever the
  body value. A stream body is handed to the piper before the method is looked at:
  \<open>send\<close> does not end the response, and what the stream delivers is written to it.
\<close>

theorem send_head_stream:
  "req_method head_request = ''HEAD''
   \<and> send demo_platform head_request fresh_response (VObject readable) True
       = Streaming (stream fresh_response readable)
   \<and> \<not> ended (response_of
          (send demo_platform head_request fresh_response (VObject readable) True))
   \<and> payload (target (send_fire demo_platform head_request True
          (stream fresh_response readable) (StreamData [0x68, 0x69]))) = [CBuffer [0x68, 0x69]]"
  by (simp add: send_def send_fire_def readable_def stream_def response_of_def
      fresh_response_def head_request_def pipe_data_def write_res_def)

text \<open>
  C8, amended: for a HEAD request and every body that is not a stream, \<open>send\<close> hands no
  content to the response: it ends the response with no payload, also when \<open>prepare\<close>
  returned content. (A stream body is piped whatever the method; the library leaves it
  to the platform to drop the body of a HEAD response.)
\<close>

theorem send_head_no_body:
  "req_method req = ''HEAD'' \<and> (truthy b \<longrightarrow> as_stream b = None) \<longrightarrow>
     send P req res b g = Sent (end_res (fst (prepare P res b)) None)
     \<and> payload (response_of (send P req res b g)) = payload res
     \<and> ended (response_of (send P req res b g))"
  by (simp add: send_not_stream response_of_def end_res_def prepare_payload)

theorem send_head_no_body_witness:
  "req_method head_request = ''HEAD''
   \<and> payload (response_of
        (send demo_platform head_request fresh_response (VString (str ''hello'')) True)) = []
   \<and> ended (response_of
        (send demo_platform head_request fresh_response (VString (str ''hello'')) True))"
  using send_head_no_body [of head_request "VString (str ''hello'')" demo_platform
          fresh_response True]
  by (simp add: head_request_def fresh_response_def response_of_def end_res_def prepare_payload)

text \<open>
  C10: \<open>send\<close> sets the ETag header, to the tag of the prepared content, exactly when the
  body is not a stream, the prepared content is neither null nor undefined, the method is
  not HEAD and tag generation is on; otherwise the ETag header is as it was. In particular,
  with status 204 or 304 the tag is set although Content-Type, Content-Length and
  Transfer-Encoding are removed.
\<close>

theorem send_etag:
  "getHeader (response_of (send P req res b g)) ''ETag'' =
     (if (truthy b \<longrightarrow> as_stream b = None) \<and> snd (prepare P res b) \<noteq> CNull
          \<and> snd (prepare P res b) \<noteq> CUndefined \<and> req_method req \<noteq> ''HEAD'' \<and> g
      then Some (HString (etag_of P (snd (prepare P res b))))
      else getHeader res ''ETag'')
   \<and> ((statusCode res = 204 \<or> statusCode res = 304) \<and> b \<noteq> VNull \<and> b \<noteq> VUndefined
        \<and> (truthy b \<longrightarrow> as_stream b = None) \<and> body (returnContentAndType P b) \<noteq> CUndefined
        \<and> req_method req \<noteq> ''HEAD'' \<and> g \<longrightarrow>
        getHeader (response_of (send P req res b g)) ''ETag''
          = Some (HString (etag_of P (body (returnContentAndType P b))))
        \<and> getHeader (response_of (send P req res b g)) ''Content-Type'' = None
        \<and> getHeader (response_of (send P req res b g)) ''Content-Length'' = None
        \<and> getHeader (response_of (send P req res b g)) ''Transfer-Encoding'' = None)"
proof (intro conjI impI)
  show "getHeader (response_of (send P req res b g)) ''ETag'' =
     (if (truthy b \<longrightarrow> as_stream b = None) \<and> snd (prepare P res b) \<noteq> CNull
          \<and> snd (prepare P res b) \<noteq> CUndefined \<and> req_method req \<noteq> ''HEAD'' \<and> g
      then Some (HString (etag_of P (snd (prepare P res b))))
      else getHeader res ''ETag'')"
  proof (cases "truthy b \<longrightarrow> as_stream b = None")
    case True
    then show ?thesis
      by (simp add: send_not_stream response_of_def end_res_def etag_def header_ops
          prepare_other_headers)
  next
    case False
    then obtain ob where "truthy b" "as_stream b = Some ob"
      by auto
    then show ?thesis
      by (simp add: send_stream response_of_def stream_def getHeader_def)
  qed
next
  assume a: "(statusCode res = 204 \<or> statusCode res = 304) \<and> b \<noteq> VNull \<and> b \<noteq> VUndefined
        \<and> (truthy b \<longrightarrow> as_stream b = None) \<and> body (returnContentAndType P b) \<noteq> CUndefined
        \<and> req_method req \<noteq> ''HEAD'' \<and> g"
  then have p: "prepare P res b =
     (res\<lparr>headers := (headers res)(''content-type'' := None, ''content-length'' := None,
                                   ''transfer-encoding'' := None)\<rparr>,
      body (returnContentAndType P b))"
    by (intro prepare_stripped) simp_all
  from a have s: "send P req res b g =
      Sent (end_res (etag P (fst (prepare P res b)) (snd (prepare P res b)))
              (Some (snd (prepare P res b))))"
    by (simp add: send_not_stream p classifier_never_null)
  show "getHeader (response_of (send P req res b g)) ''ETag''
          = Some (HString (etag_of P (body (returnContentAndType P b))))"
    "getHeader (response_of (send P req res b g)) ''Content-Type'' = None"
    "getHeader (response_of (send P req res b g)) ''Content-Length'' = None"
    "getHeader (response_of (send P req res b g)) ''Transfer-Encoding'' = None"
    unfolding s by (simp_all add: p response_of_def end_res_def etag_def header_ops)
qed

theorem send_etag_witness:
  "statusCode (status fresh_response 204) = 204
   \<and> getHeader (response_of (send demo_platform get_request (status fresh_response 204)
        (VString (str ''hi'')) True)) ''ETag'' = Some (HString (str ''tag''))
   \<and> getHeader (response_of (send demo_platform get_request (status fresh_response 204)
        (VString (str ''hi'')) True)) ''Content-Type'' = None
   \<and> getHeader (response_of (send demo_platform head_request fresh_response
        (VString (str ''hi'')) True)) ''ETag'' = None"
  using send_etag [of demo_platform get_request "status fresh_response 204"
          "VString (str ''hi'')" True]
        send_etag [of demo_platform head_request fresh_response "VString (str ''hi'')" True]
  by (simp add: prepare_chunk status_def fresh_response_def get_request_def head_request_def
      demo_platform_def getHeader_def)

section \<open>Properties of the classifier and of the header guards\<close>

text \<open>
  C7: for every string body the classifier returns the string unchanged; the inferred
  media type is \<open>text/html\<close> exactly when the string begins with \<open><\<close> after optional
  leading white space, and \<open>text/plain\<close> otherwise.
\<close>

theorem classifier_string:
  "returnContentAndType P (VString s) =
     \<lparr>body = CString s,
      type = Some (if begins_with_lt_after_whitespace s then str ''text/html''
                   else str ''text/plain'')\<rparr>"
  by (simp add: html_regex_test_eq)

theorem classifier_string_witness:
  "returnContentAndType demo_platform (VString (str ''  <h1>'')) =
     \<lparr>body = CString (str ''  <h1>''), type = Some (str ''text/html'')\<rparr>
   \<and> returnContentAndType demo_platform (VString (str ''a < b'')) =
     \<lparr>body = CString (str ''a < b''), type = Some (str ''text/plain'')\<rparr>"
  using classifier_string [of demo_platform "str ''  <h1>''"]
        classifier_string [of demo_platform "str ''a < b''"]
  by (simp add: begins_with_lt_after_whitespace_def str_def isWhiteSpace_def)

text \<open>
  C6: \<open>safeHeader\<close> is to leave a header that has a value as it is. The test
  \<open>!res.getHeader(key)\<close> takes a header holding the number 0 (or the empty string) for a
  missing one: a Content-Length of 0 is replaced.
\<close>

theorem safeHeader_overwrites_zero:
  "getHeader (header fresh_response ''Content-Length'' (HNumber 0)) ''Content-Length''
     = Some (HNumber 0)
   \<and> getHeader (safeHeader (header fresh_response ''Content-Length'' (HNumber 0))
                  ''Content-Length'' (HNumber 42)) ''Content-Length''
     = Some (HNumber 42)"
  by (simp add: safeHeader_def getHeader_def header_def)

text \<open>
  C5: \<open>prepare\<close> is to set Content-Length only if it is unset. It tests the header the same
  way, \<open>!headers['content-length']\<close>: a Content-Length of 0 that is present is replaced by
  the length of the content.
\<close>

theorem prepare_overwrites_zero_length:
  "getHeader (header fresh_response ''Content-Length'' (HNumber 0)) ''Content-Length''
     = Some (HNumber 0)
   \<and> getHeader (fst (prepare demo_platform (header fresh_response ''Content-Length'' (HNumber 0))
                        (VString (str ''hi'')))) ''Content-Length''
     = Some (HNumber 2)"
  by (simp add: prepare_def Let_def header_ops noContent_def notModified_def fresh_response_def
      str_def)

text \<open>
  C9: \<open>prepareJsonp\<close> is to set Content-Type only if it is unset. It does so through
  \<open>safeHeader\<close>: a Content-Type that is present with the empty string is replaced.
\<close>

theorem prepareJsonp_overwrites_empty_type:
  "getHeader (header fresh_response ''Content-Type'' (HString [])) ''Content-Type''
     = Some (HString [])
   \<and> getHeader (fst (prepareJsonp demo_platform
                        (header fresh_response ''Content-Type'' (HString []))
                        (VBoolean True) (str ''cb''))) ''Content-Type''
     = Some (HString (str ''text/javascript; charset=utf-8''))"
  by (simp add: prepareJsonp_def Let_def safeHeader_def header_ops split: option.split)

end
